theory Spec2Isabelle
  imports Complex_Main
begin

section \<open>Insight-Hub forecasting engine\<close>

text \<open>
  A shallow embedding of the forecasting code of Insight-Hub: the polynomial trend fit
  (\<open>polynomialRegression\<close>, \<open>solveNormalEquations\<close>, \<open>gaussianElimination\<close>), the linear
  convenience fit (\<open>linearRegression\<close>), the centred moving average (\<open>movingAverage\<close>),
  the seasonal decomposition (\<open>detectSeasonality\<close>) and the blended forecast
  (\<open>generateEnhancedPredictions\<close>).

  Numbers. A TypeScript \<open>number\<close> that carries a measurement is a \<^typ>\<open>real\<close>: the
  development is about exact arithmetic, and says nothing about rounding, overflow or
  the IEEE special values. The one place where the code can leave the reals in exact
  arithmetic (the quotient \<open>0 / 0\<close> of an empty window in \<open>movingAverage\<close>) is an outcome
  of its own, \<open>NotANumber\<close>. A \<open>number\<close> that counts (a degree, a horizon, an index) is
  an \<^typ>\<open>int\<close> or a \<^typ>\<open>nat\<close>.

  Failures. A read of a property of \<open>undefined\<close> raises a \<open>TypeError\<close> in the source;
  it is the outcome \<open>Inl TypeError\<close> here.
\<close>

subsection \<open>Data model\<close>

datatype error = TypeError | NotANumber

record MetricData =
  month :: string
  valueOf :: real
  predicted :: "bool option"

datatype TrendDirection = Up | Down | Stable

record MLModelResult =
  predictions :: "MetricData list"
  confidence :: real
  trendDirection :: TrendDirection
  seasonalPattern :: bool
  accuracy :: real

record FitResult =
  coefficients :: "real list"
  r2 :: real

record LinearFit =
  slope :: real
  intercept :: real
  linR2 :: real

record Decomposition =
  seasonal :: "real list"
  trend :: "real list"
  hasSeasonality :: bool

subsection \<open>JavaScript primitives\<close>

text \<open>\<open>a || d\<close> on numbers: the left operand unless it is falsy, that is zero.\<close>

definition orElse :: "real \<Rightarrow> real \<Rightarrow> real" where
  "orElse a d = (if a = 0 then d else a)"

text \<open>
  \<open>xs.slice(start, fin)\<close>: a negative bound counts from the end, both bounds are clipped
  to the array, and the result is empty when the bounds cross.
\<close>

definition js_slice :: "'a list \<Rightarrow> int \<Rightarrow> int \<Rightarrow> 'a list" where
  "js_slice xs start fin =
     (let len = int (length xs);
          k = (if start < 0 then max (len + start) 0 else min start len);
          final = (if fin < 0 then max (len + fin) 0 else min fin len)
      in take (nat (final - k)) (drop (nat k) xs))"

text \<open>
  \<open>xs[i] = v\<close> for \<open>i \<le> xs.length\<close>: an assignment one past the end extends the array.
  (An assignment further out would leave holes; the code never makes one.)
\<close>

definition js_assign :: "'a list \<Rightarrow> nat \<Rightarrow> 'a \<Rightarrow> 'a list" where
  "js_assign xs i v = (if i < length xs then xs[i := v] else xs @ [v])"

text \<open>A loop that pushes one result per index and stops at the first failure.\<close>

fun collect :: "('a \<Rightarrow> error + 'b) \<Rightarrow> 'a list \<Rightarrow> error + 'b list" where
  "collect f [] = Inr []"
| "collect f (x # xs) =
     (case f x of
        Inl e \<Rightarrow> Inl e
      | Inr y \<Rightarrow> (case collect f xs of Inl e \<Rightarrow> Inl e | Inr ys \<Rightarrow> Inr (y # ys)))"

subsection \<open>TrendFitter\<close>

text \<open>
  \<open>coefficients.reduce((sum, coef, pow) => sum + coef * Math.pow(x, pow), 0)\<close>: the value
  of the fitted polynomial at \<open>x\<close>, summed from the constant term upwards.
\<close>

definition polyEval :: "real list \<Rightarrow> real \<Rightarrow> real" where
  "polyEval cs x = foldl (\<lambda>sum (pow, coef). sum + coef * x ^ pow) 0 (enumerate 0 cs)"

text \<open>The design matrix: row \<open>i\<close>, column \<open>j\<close> is \<open>Math.pow(i, j)\<close> for \<open>j = 0 .. degree\<close>.\<close>

definition designMatrix :: "nat \<Rightarrow> int \<Rightarrow> real list list" where
  "designMatrix n degree = map (\<lambda>i. map (\<lambda>j. real i ^ nat j) [0..degree]) [0..<n]"

text \<open>
  The two accumulations of \<open>solveNormalEquations\<close>, for \<open>p\<close> columns: \<open>XTX[i][j]\<close> sums
  \<open>X[k][i] * X[k][j]\<close> and \<open>XTy[i]\<close> sums \<open>X[k][i] * y[k]\<close> over the rows \<open>k\<close>. They read
  \<open>X[k][i]\<close> for \<open>i < p\<close> and \<open>y[k]\<close> for \<open>k < X.length\<close>: the function is private and its
  only caller passes a design matrix, whose rows all have \<open>p\<close> entries, with a \<open>y\<close> of
  as many entries as the matrix has rows (lemma \<open>designMatrix_rows\<close> below).
\<close>

definition XTX :: "real list list \<Rightarrow> nat \<Rightarrow> real list list" where
  "XTX X p = map (\<lambda>i. map (\<lambda>j. foldl (\<lambda>acc k. acc + X ! k ! i * X ! k ! j) 0 [0..<length X])
                          [0..<p]) [0..<p]"

definition XTy :: "real list list \<Rightarrow> real list \<Rightarrow> nat \<Rightarrow> real list" where
  "XTy X y p = map (\<lambda>i. foldl (\<lambda>acc k. acc + X ! k ! i * y ! k) 0 [0..<length X]) [0..<p]"

text \<open>
  \<open>gaussianElimination\<close>, on an \<open>n \<times> n\<close> matrix and a vector of \<open>n\<close> entries (what
  \<open>solveNormalEquations\<close> builds). With no row at all, \<open>A[0][0]\<close> reads a property of
  \<open>undefined\<close> and raises. With one row, the assignment to \<open>solution[1]\<close> extends the
  array of one entry.
\<close>

definition gaussianElimination :: "real list list \<Rightarrow> real list \<Rightarrow> error + real list" where
  "gaussianElimination A b =
     (let n = length A;
          solution = replicate n (0::real)
      in if n = 2 then
           (let det = A ! 0 ! 0 * A ! 1 ! 1 - A ! 0 ! 1 * A ! 1 ! 0
            in if \<bar>det\<bar> < 1 / 10 ^ 10 then Inr [0, 0]
               else Inr (js_assign
                          (js_assign solution 0 ((b ! 0 * A ! 1 ! 1 - b ! 1 * A ! 0 ! 1) / det))
                          1 ((A ! 0 ! 0 * b ! 1 - A ! 1 ! 0 * b ! 0) / det)))
         else if n = 0 then Inl TypeError
         else Inr (js_assign
                    (js_assign solution 0 (b ! 0 / orElse (A ! 0 ! 0) 1))
                    1 (if n > 1 then b ! 1 / orElse (A ! 1 ! 1) 1 else 0)))"

text \<open>\<open>solveNormalEquations\<close>: \<open>X[0].length\<close> raises when \<open>X\<close> has no row.\<close>

definition solveNormalEquations :: "real list list \<Rightarrow> real list \<Rightarrow> error + real list" where
  "solveNormalEquations X y =
     (case X of
        [] \<Rightarrow> Inl TypeError
      | row0 # _ \<Rightarrow> (let p = length row0 in gaussianElimination (XTX X p) (XTy X y p)))"

definition polynomialRegression :: "real list \<Rightarrow> int \<Rightarrow> error + FitResult" where
  "polynomialRegression data degree =
     (let n = length data
      in if int n < degree + 1 then Inr \<lparr>coefficients = [0], r2 = 0\<rparr>
         else
           (case solveNormalEquations (designMatrix n degree) data of
              Inl e \<Rightarrow> Inl e
            | Inr cs \<Rightarrow>
                (let meanY = foldl (\<lambda>sum v. sum + v) 0 data / real n;
                     ssRes = foldl (\<lambda>acc i. acc + (data ! i - polyEval cs (real i)) ^ 2) 0 [0..<n];
                     ssTot = foldl (\<lambda>acc i. acc + (data ! i - meanY) ^ 2) 0 [0..<n];
                     r = (if ssTot = 0 then 1 else 1 - ssRes / ssTot)
                 in Inr \<lparr>coefficients = cs, r2 = r\<rparr>)))"

text \<open>
  \<open>linearRegression\<close> of \<open>mockData.ts\<close>. \<open>data[0] || 0\<close> is the first value, or zero when
  there is none. For \<open>n \<ge> 2\<close> the divisor \<open>n * sumXX - sumX * sumX\<close> is positive
  (lemma \<open>linearRegression_divisor_pos\<close> below).
\<close>

definition linearRegression :: "real list \<Rightarrow> LinearFit" where
  "linearRegression data =
     (let n = length data
      in if n < 2 then
           \<lparr>slope = 0, intercept = (case data of [] \<Rightarrow> 0 | d0 # _ \<Rightarrow> orElse d0 0), linR2 = 0\<rparr>
         else
           (let x = map real [0..<n];
                sumX = foldl (\<lambda>a b. a + b) 0 x;
                sumY = foldl (\<lambda>a b. a + b) 0 data;
                sumXY = foldl (\<lambda>acc i. acc + x ! i * data ! i) 0 [0..<n];
                sumXX = foldl (\<lambda>acc xi. acc + xi * xi) 0 x;
                sl = (real n * sumXY - sumX * sumY) / (real n * sumXX - sumX * sumX);
                ic = (sumY - sl * sumX) / real n;
                meanY = sumY / real n;
                ssRes = foldl (\<lambda>acc i. acc + (data ! i - (sl * real i + ic)) ^ 2) 0 [0..<n];
                ssTot = foldl (\<lambda>acc yi. acc + (yi - meanY) ^ 2) 0 data;
                r = (if ssTot = 0 then 1 else 1 - ssRes / ssTot)
            in \<lparr>slope = sl, intercept = ic, linR2 = r\<rparr>))"

subsection \<open>Smoother\<close>

text \<open>
  \<open>movingAverage\<close>: the window is a \<open>number\<close>, halved and rounded down before the index
  and up after it. An empty slice makes the source divide \<open>0\<close> by \<open>0\<close>.
\<close>

definition windowAt :: "real list \<Rightarrow> real \<Rightarrow> nat \<Rightarrow> real list" where
  "windowAt data window i =
     (let start = max 0 (int i - \<lfloor>window / 2\<rfloor>);
          fin = min (int (length data)) (int i + \<lceil>window / 2\<rceil>)
      in js_slice data start fin)"

definition movingAverage :: "real list \<Rightarrow> real \<Rightarrow> error + real list" where
  "movingAverage data window =
     collect (\<lambda>i. let slice = windowAt data window i
                  in if slice = [] then Inl NotANumber
                     else Inr (foldl (\<lambda>sum v. sum + v) 0 slice / real (length slice)))
             [0..<length data]"

subsection \<open>SeasonalDecomposer\<close>

definition seasonalSums :: "real list \<Rightarrow> real list \<times> nat list" where
  "seasonalSums detrended =
     fold (\<lambda>i (pat, cnt).
             (pat[i mod 12 := pat ! (i mod 12) + detrended ! i],
              cnt[i mod 12 := cnt ! (i mod 12) + 1]))
          [0..<length detrended] (replicate 12 0, replicate 12 0)"

definition seasonalAverages :: "real list \<times> nat list \<Rightarrow> real list" where
  "seasonalAverages pc =
     fold (\<lambda>i pat. if snd pc ! i > 0 then pat[i := pat ! i / real (snd pc ! i)] else pat)
          [0..<12] (fst pc)"

definition detectSeasonality :: "real list \<Rightarrow> error + Decomposition" where
  "detectSeasonality data =
     (let n = length data
      in if n < 12 then Inr \<lparr>seasonal = [], trend = [], hasSeasonality = False\<rparr>
         else
           (case movingAverage data 4 of
              Inl e \<Rightarrow> Inl e
            | Inr tr \<Rightarrow>
                (let detrended = map (\<lambda>i. data ! i - tr ! i) [0..<n];
                     pat = seasonalAverages (seasonalSums detrended);
                     seas = map (\<lambda>i. pat ! (i mod 12)) [0..<n];
                     seasonalVariance = foldl (\<lambda>sum v. sum + v * v) 0 pat / 12
                 in Inr \<lparr>seasonal = seas, trend = tr,
                         hasSeasonality = (seasonalVariance > 0.1)\<rparr>)))"

subsection \<open>ForecastEngine\<close>

definition monthNames :: "string list" where
  "monthNames = [''Jan'', ''Feb'', ''Mar'', ''Apr'', ''May'', ''Jun'',
                 ''Jul'', ''Aug'', ''Sep'', ''Oct'', ''Nov'', ''Dec'']"

text \<open>
  The label of the most recent three values. The caller has at least three values, so
  \<open>values.slice(-3)\<close> has the entries \<open>0\<close> and \<open>2\<close> that are read.
\<close>

definition trendLabel :: "real list \<Rightarrow> TrendDirection" where
  "trendLabel vs =
     (let recentTrend = js_slice vs (- 3) (int (length vs))
      in if recentTrend ! 2 > recentTrend ! 0 * 1.05 then Up
         else if recentTrend ! 2 < recentTrend ! 0 * 0.95 then Down
         else Stable)"

text \<open>
  One pass of the prediction loop, for the step \<open>i \<ge> 1\<close>. \<open>Math.random()\<close> and
  \<open>new Date().getMonth()\<close> are read once in each pass: \<open>rnd i\<close> and \<open>clock i\<close> are the values
  the two ambient sources give in pass \<open>i\<close>. \<open>Math.sin\<close> is the real sine.
\<close>

definition predictStep ::
  "(int \<Rightarrow> real) \<Rightarrow> (int \<Rightarrow> nat) \<Rightarrow> real list \<Rightarrow> FitResult \<Rightarrow> Decomposition \<Rightarrow> int \<Rightarrow> MetricData"
where
  "predictStep rnd clock vs polyResult dec i =
     (let n = length vs;
          futureIndex = nat (int n + i - 1);
          p0 = polyEval (coefficients polyResult) (real futureIndex);
          p1 = (if hasSeasonality dec \<and> length (seasonal dec) > 0
                then (let seasonalIndex = futureIndex mod 12
                      in p0 + (if seasonalIndex < length (seasonal dec)
                               then orElse (seasonal dec ! seasonalIndex) 0 else 0))
                else p0);
          conf = min (r2 polyResult) 0.95;
          uncertainty = (1 - conf) * p1 * 0.15;
          realDataMultiplier = 1.2 + sin (real futureIndex) * 0.1;
          p2 = p1 * realDataMultiplier;
          p3 = p2 + (rnd i - 0.5) * uncertainty;
          p4 = max p3 (vs ! (length vs - 1) * 0.2);
          currentMonth = clock i;
          futureMonthIndex = (currentMonth + nat i) mod 12
      in \<lparr>month = monthNames ! futureMonthIndex, valueOf = p4, predicted = Some True\<rparr>)"

definition generateEnhancedPredictions ::
  "(int \<Rightarrow> real) \<Rightarrow> (int \<Rightarrow> nat) \<Rightarrow> MetricData list \<Rightarrow> int \<Rightarrow> error + MLModelResult"
where
  "generateEnhancedPredictions rnd clock historicalData months =
     (let vs = map valueOf historicalData;
          n = length vs
      in if n < 3 then
           Inr \<lparr>predictions = [], confidence = 0, trendDirection = Stable,
                seasonalPattern = False, accuracy = 0\<rparr>
         else
           (case polynomialRegression vs (min 3 (int n - 1)) of
              Inl e \<Rightarrow> Inl e
            | Inr polyResult \<Rightarrow>
                (case detectSeasonality vs of
                   Inl e \<Rightarrow> Inl e
                 | Inr dec \<Rightarrow>
                     Inr \<lparr>predictions = map (predictStep rnd clock vs polyResult dec) [1..months],
                          confidence = r2 polyResult,
                          trendDirection = trendLabel vs,
                          seasonalPattern = hasSeasonality dec,
                          accuracy = min (r2 polyResult * 100) 95\<rparr>)))"

text \<open>The two ambient sources held fixed: every draw is \<open>0.5\<close>, every reading is January.\<close>

definition halfRandom :: "int \<Rightarrow> real" where
  "halfRandom i = 0.5"

definition januaryClock :: "int \<Rightarrow> nat" where
  "januaryClock i = 0"

subsection \<open>The clipped window, as specified\<close>

text \<open>
  The specification of the smoother, stated on its own: entry \<open>i\<close> averages the half-open
  index window \<open>[i - floor(window/2), i + ceil(window/2))\<close> clipped to the bounds of the
  series. \<open>windowLo\<close> and \<open>windowHi\<close> are the clipped bounds, \<open>clippedWindowMean\<close> the mean
  of the entries between them.
\<close>

definition windowLo :: "real \<Rightarrow> nat \<Rightarrow> nat" where
  "windowLo window i = nat (max 0 (int i - \<lfloor>window / 2\<rfloor>))"

definition windowHi :: "nat \<Rightarrow> real \<Rightarrow> nat \<Rightarrow> nat" where
  "windowHi n window i = nat (min (int n) (int i + \<lceil>window / 2\<rceil>))"

definition clippedWindowMean :: "real list \<Rightarrow> real \<Rightarrow> nat \<Rightarrow> real" where
  "clippedWindowMean data window i =
     (\<Sum>j = windowLo window i..<windowHi (length data) window i. data ! j)
       / real (windowHi (length data) window i - windowLo window i)"

section \<open>Properties\<close>

subsection \<open>Shapes of the normal equations\<close>

lemma length_XTX: "length (XTX X p) = p"
  by (simp add: XTX_def)

lemma length_XTy: "length (XTy X y p) = p"
  by (simp add: XTy_def)

lemma length_designMatrix: "length (designMatrix n degree) = n"
  by (simp add: designMatrix_def)

lemma designMatrix_rows:
  "row \<in> set (designMatrix n degree) \<Longrightarrow> length row = nat (degree + 1)"
  by (auto simp: designMatrix_def)

lemma designMatrix_Cons:
  assumes "0 < n"
  shows "\<exists>row0 rows. designMatrix n degree = row0 # rows \<and> length row0 = nat (degree + 1)"
proof (cases "designMatrix n degree")
  case Nil
  with assms length_designMatrix [of n degree] show ?thesis by simp
next
  case (Cons row0 rows)
  then have "row0 \<in> set (designMatrix n degree)" by simp
  then have "length row0 = nat (degree + 1)" by (rule designMatrix_rows)
  with Cons show ?thesis by simp
qed

lemma solveNormalEquations_designMatrix:
  assumes "0 < n"
  shows "solveNormalEquations (designMatrix n degree) y =
         gaussianElimination (XTX (designMatrix n degree) (nat (degree + 1)))
                             (XTy (designMatrix n degree) y (nat (degree + 1)))"
proof -
  from designMatrix_Cons [OF assms] obtain row0 rows
    where "designMatrix n degree = row0 # rows" "length row0 = nat (degree + 1)" by blast
  then show ?thesis by (simp add: solveNormalEquations_def Let_def)
qed

lemma gaussianElimination_fallback:
  assumes "3 \<le> length A"
  shows "gaussianElimination A b =
         Inr ((b ! 0 / orElse (A ! 0 ! 0) 1) # (b ! 1 / orElse (A ! 1 ! 1) 1)
              # replicate (length A - 2) 0)"
proof -
  obtain k where k: "length A = Suc (Suc (Suc k))"
    using assms by (metis Suc_le_D numeral_3_eq_3 Suc_le_mono le0 add_Suc_right add_Suc
        le_Suc_ex)
  show ?thesis
    by (simp add: gaussianElimination_def js_assign_def k Let_def)
qed

lemma gaussianElimination_single:
  assumes "length A = 1"
  shows "gaussianElimination A b = Inr [b ! 0 / orElse (A ! 0 ! 0) 1, 0]"
  using assms by (simp add: gaussianElimination_def js_assign_def Let_def)

lemma gaussianElimination_pair_length:
  assumes "length A = 2" and "gaussianElimination A b = Inr cs"
  shows "length cs = 2"
  using assms by (auto simp: gaussianElimination_def js_assign_def Let_def split: if_splits)

lemma gaussianElimination_pair_ok:
  assumes "length A = 2"
  shows "\<exists>cs. gaussianElimination A b = Inr cs"
  using assms by (auto simp: gaussianElimination_def js_assign_def Let_def split: if_splits)

lemma polynomialRegression_of_solution:
  assumes "\<not> int (length data) < degree + 1"
    and "solveNormalEquations (designMatrix (length data) degree) data = Inr cs"
  shows "\<exists>r. polynomialRegression data degree = Inr \<lparr>coefficients = cs, r2 = r\<rparr>"
  using assms by (simp add: polynomialRegression_def Let_def)

lemma foldl_enumerate_zeros:
  "foldl (\<lambda>sum (pow, coef). sum + coef * x ^ pow) s (enumerate m (replicate k (0::real))) = s"
  by (induction k arbitrary: m s) simp_all

lemma polyEval_affine:
  "polyEval (a # b # replicate k 0) t = a + b * t"
  by (simp add: polyEval_def foldl_enumerate_zeros)

lemma polynomialRegression_fallback:
  assumes "2 \<le> degree" and "degree + 1 \<le> int (length data)"
  shows "\<exists>r. polynomialRegression data degree =
           Inr \<lparr>coefficients =
                  (XTy (designMatrix (length data) degree) data (nat (degree + 1)) ! 0
                     / orElse (XTX (designMatrix (length data) degree) (nat (degree + 1)) ! 0 ! 0) 1)
                  # (XTy (designMatrix (length data) degree) data (nat (degree + 1)) ! 1
                     / orElse (XTX (designMatrix (length data) degree) (nat (degree + 1)) ! 1 ! 1) 1)
                  # replicate (nat degree - 1) 0,
                r2 = r\<rparr>"
proof -
  let ?X = "designMatrix (length data) degree"
  let ?p = "nat (degree + 1)"
  from assms have pos: "0 < length data" by (cases data) simp_all
  from assms have "3 \<le> length (XTX ?X ?p)" by (simp add: length_XTX)
  then have "gaussianElimination (XTX ?X ?p) (XTy ?X data ?p) =
      Inr ((XTy ?X data ?p ! 0 / orElse (XTX ?X ?p ! 0 ! 0) 1)
           # (XTy ?X data ?p ! 1 / orElse (XTX ?X ?p ! 1 ! 1) 1)
           # replicate (length (XTX ?X ?p) - 2) 0)"
    by (rule gaussianElimination_fallback)
  moreover from assms have "length (XTX ?X ?p) - 2 = nat degree - 1"
    by (simp add: length_XTX nat_add_distrib)
  ultimately have "solveNormalEquations ?X data =
      Inr ((XTy ?X data ?p ! 0 / orElse (XTX ?X ?p ! 0 ! 0) 1)
           # (XTy ?X data ?p ! 1 / orElse (XTX ?X ?p ! 1 ! 1) 1)
           # replicate (nat degree - 1) 0)"
    by (simp add: solveNormalEquations_designMatrix [OF pos])
  moreover from assms have "\<not> int (length data) < degree + 1" by simp
  ultimately show ?thesis by (rule polynomialRegression_of_solution [rotated])
qed

lemma polynomialRegression_linear_length:
  assumes "2 \<le> length data"
  shows "\<exists>fit. polynomialRegression data 1 = Inr fit \<and> length (coefficients fit) = 2"
proof -
  let ?X = "designMatrix (length data) 1"
  from assms have pos: "0 < length data" by (cases data) simp_all
  have len: "length (XTX ?X (nat (1 + 1))) = 2" by (simp add: length_XTX)
  from gaussianElimination_pair_ok [OF len] obtain cs
    where cs: "gaussianElimination (XTX ?X (nat (1 + 1))) (XTy ?X data (nat (1 + 1))) = Inr cs"
    by blast
  from gaussianElimination_pair_length [OF len cs] have l2: "length cs = 2" .
  from cs have "solveNormalEquations ?X data = Inr cs"
    by (simp add: solveNormalEquations_designMatrix [OF pos])
  moreover from assms have "\<not> int (length data) < 1 + 1" by simp
  ultimately have "\<exists>r. polynomialRegression data 1 = Inr \<lparr>coefficients = cs, r2 = r\<rparr>"
    by (rule polynomialRegression_of_solution [rotated])
  with l2 show ?thesis by auto
qed

lemma nth_fallback_tail:
  assumes "2 \<le> k" and "k \<le> m"
  shows "(a # b # replicate (m - 1) (0::real)) ! k = 0"
proof -
  from assms(1) have "k = Suc (Suc (k - 2))" by simp
  moreover from assms have "k - 2 < m - 1" by simp
  ultimately have "(a # b # replicate (m - 1) (0::real)) ! k = replicate (m - 1) (0::real) ! (k - 2)"
    by (metis nth_Cons_Suc)
  with \<open>k - 2 < m - 1\<close> show ?thesis by simp
qed


subsection \<open>Outcomes of the fit by degree\<close>

text \<open>
  The polynomial fit raises for a negative degree, returns \<open>degree + 1\<close> coefficients for
  a degree of at least 1, and two coefficients for the degree 0.
\<close>

lemma polynomialRegression_length:
  assumes "1 \<le> degree" and "degree + 1 \<le> int (length data)"
  shows "\<exists>fit. polynomialRegression data degree = Inr fit
           \<and> length (coefficients fit) = nat (degree + 1)"
proof (cases "degree = 1")
  case True
  with assms have "2 \<le> length data" by simp
  from polynomialRegression_linear_length [OF this] True show ?thesis by simp
next
  case False
  with assms have d: "2 \<le> degree" by simp
  from polynomialRegression_fallback [OF d assms(2)] obtain cs r where
    "polynomialRegression data degree = Inr \<lparr>coefficients = cs, r2 = r\<rparr>"
    "length cs = Suc (Suc (nat degree - 1))" by force
  moreover from d have "Suc (Suc (nat degree - 1)) = nat (degree + 1)" by (simp add: nat_add_distrib)
  ultimately show ?thesis by simp
qed

lemma polynomialRegression_constant_length:
  assumes "data \<noteq> []"
  shows "\<exists>fit. polynomialRegression data 0 = Inr fit \<and> length (coefficients fit) = 2"
proof -
  from assms have pos: "0 < length data" by simp
  have "length (XTX (designMatrix (length data) 0) (nat (0 + 1))) = 1" by (simp add: length_XTX)
  from gaussianElimination_single [OF this]
  have "solveNormalEquations (designMatrix (length data) 0) data =
        Inr [XTy (designMatrix (length data) 0) data (nat (0 + 1)) ! 0
               / orElse (XTX (designMatrix (length data) 0) (nat (0 + 1)) ! 0 ! 0) 1, 0]"
    by (simp add: solveNormalEquations_designMatrix [OF pos])
  moreover from pos have "\<not> int (length data) < 0 + 1" by simp
  ultimately have "\<exists>r. polynomialRegression data 0 =
      Inr \<lparr>coefficients = [XTy (designMatrix (length data) 0) data (nat (0 + 1)) ! 0
               / orElse (XTX (designMatrix (length data) 0) (nat (0 + 1)) ! 0 ! 0) 1, 0], r2 = r\<rparr>"
    by (rule polynomialRegression_of_solution [rotated])
  then show ?thesis by auto
qed

lemma polynomialRegression_negative_degree:
  assumes "degree < 0"
  shows "polynomialRegression data degree = Inl TypeError"
proof (cases data)
  case Nil
  with assms show ?thesis
    by (simp add: polynomialRegression_def designMatrix_def solveNormalEquations_def)
next
  case (Cons d ds)
  then have pos: "0 < length data" by simp
  from assms have "nat (degree + 1) = 0" by simp
  then have "solveNormalEquations (designMatrix (length data) degree) data = Inl TypeError"
    by (simp add: solveNormalEquations_designMatrix [OF pos] gaussianElimination_def XTX_def)
  moreover from assms have "\<not> int (length data) < degree + 1" by simp
  ultimately show ?thesis by (simp add: polynomialRegression_def Let_def)
qed

subsection \<open>The divisor of the linear fit\<close>

text \<open>
  For \<open>n\<close> points the divisor \<open>n * sumXX - sumX * sumX\<close> of \<open>linearRegression\<close> is
  \<open>n\<^sup>2 (n - 1) (n + 1) / 12\<close>, positive from two points on: the slope is never a
  quotient by zero.
\<close>

lemma sumX_closed:
  "foldl (\<lambda>a b. a + b) 0 (map real [0..<n]) = real n * (real n - 1) / 2"
  by (induction n) (simp_all add: field_simps)

lemma sumXX_closed:
  "foldl (\<lambda>acc xi. acc + xi * xi) 0 (map real [0..<n]) =
   (real n - 1) * real n * (2 * real n - 1) / 6"
  by (induction n) (simp_all add: field_simps)

lemma linearRegression_divisor:
  "real n * foldl (\<lambda>acc xi. acc + xi * xi) 0 (map real [0..<n])
     - foldl (\<lambda>a b. a + b) 0 (map real [0..<n]) * foldl (\<lambda>a b. a + b) 0 (map real [0..<n])
   = real n * real n * (real n - 1) * (real n + 1) / 12"
  unfolding sumX_closed sumXX_closed by (simp add: field_simps power2_eq_square) 

lemma linearRegression_divisor_pos:
  assumes "2 \<le> n"
  shows "0 < real n * foldl (\<lambda>acc xi. acc + xi * xi) 0 (map real [0..<n])
     - foldl (\<lambda>a b. a + b) 0 (map real [0..<n]) * foldl (\<lambda>a b. a + b) 0 (map real [0..<n])"
proof -
  from assms have "0 < real n" and "0 < real n - 1" and "0 < real n + 1" by simp_all
  then have "0 < real n * real n * (real n - 1) * (real n + 1) / 12" by simp
  then show ?thesis by (simp only: linearRegression_divisor)
qed

subsection \<open>The solver for more than two unknowns\<close>

text \<open>
  C2 (as the code has it). For a degree above 1 on a series with at least \<open>degree + 1\<close>
  points the fit succeeds with \<open>degree + 1\<close> coefficients. Only the coefficients 0 and 1
  are computed: coefficient \<open>k\<close> is \<open>(X\<^sup>T y)[k]\<close> divided by the diagonal entry
  \<open>(X\<^sup>T X)[k][k]\<close>, with 1 as the divisor when that entry is zero. Every coefficient
  from 2 to \<open>degree\<close> stays at the zero the solution was filled with.
\<close>

theorem diagonal_fallback_only_first_two:
  assumes "1 < degree" and "degree + 1 \<le> int (length data)"
  shows "\<exists>fit. polynomialRegression data degree = Inr fit
           \<and> length (coefficients fit) = nat (degree + 1)
           \<and> (\<forall>k<2. coefficients fit ! k =
                  XTy (designMatrix (length data) degree) data (nat (degree + 1)) ! k
                  / orElse (XTX (designMatrix (length data) degree) (nat (degree + 1)) ! k ! k) 1)
           \<and> (\<forall>k. 2 \<le> k \<and> k \<le> nat degree \<longrightarrow> coefficients fit ! k = 0)"
proof -
  define b where "b = XTy (designMatrix (length data) degree) data (nat (degree + 1))"
  define A where "A = XTX (designMatrix (length data) degree) (nat (degree + 1))"
  define cs where "cs = (b ! 0 / orElse (A ! 0 ! 0) 1) # (b ! 1 / orElse (A ! 1 ! 1) 1)
                         # replicate (nat degree - 1) 0"
  from assms have d: "2 \<le> degree" by simp
  have "\<exists>r. polynomialRegression data degree = Inr \<lparr>coefficients = cs, r2 = r\<rparr>"
    unfolding cs_def b_def A_def by (rule polynomialRegression_fallback [OF d assms(2)])
  then obtain r where
    fit: "polynomialRegression data degree = Inr \<lparr>coefficients = cs, r2 = r\<rparr>" ..
  from d have len: "length cs = nat (degree + 1)"
    by (simp add: cs_def nat_add_distrib)
  have first: "\<forall>k<2. cs ! k = b ! k / orElse (A ! k ! k) 1"
  proof (intro allI impI)
    fix k :: nat assume "k < 2"
    then have "k = 0 \<or> k = 1" by auto
    then show "cs ! k = b ! k / orElse (A ! k ! k) 1"
    proof
      assume "k = 0" then show ?thesis by (simp add: cs_def)
    next
      assume "k = 1" then show ?thesis by (simp add: cs_def)
    qed
  qed
  have rest: "\<forall>k. 2 \<le> k \<and> k \<le> nat degree \<longrightarrow> cs ! k = 0"
  proof (intro allI impI)
    fix k assume "2 \<le> k \<and> k \<le> nat degree"
    then show "cs ! k = 0" unfolding cs_def by (intro nth_fallback_tail) simp_all
  qed
  let ?fit = "\<lparr>coefficients = cs, r2 = r\<rparr>"
  have "polynomialRegression data degree = Inr ?fit" by (rule fit)
  moreover have "length (coefficients ?fit) = nat (degree + 1)" using len by simp
  moreover have "\<forall>k<2. coefficients ?fit ! k = b ! k / orElse (A ! k ! k) 1" using first by simp
  moreover have "\<forall>k. 2 \<le> k \<and> k \<le> nat degree \<longrightarrow> coefficients ?fit ! k = 0"
    using rest by simp
  ultimately show ?thesis unfolding b_def A_def by blast
qed

theorem diagonal_fallback_only_first_two_witness:
  "(1::int) < 2 \<and> (2::int) + 1 \<le> int (length [0, 1, 4 :: real])
   \<and> (\<exists>fit. polynomialRegression [0, 1, 4] 2 = Inr fit
           \<and> length (coefficients fit) = nat (2 + 1)
           \<and> (\<forall>k<2. coefficients fit ! k =
                  XTy (designMatrix (length [0, 1, 4 :: real]) 2) [0, 1, 4] (nat (2 + 1)) ! k
                  / orElse (XTX (designMatrix (length [0, 1, 4 :: real]) 2) (nat (2 + 1)) ! k ! k) 1)
           \<and> (\<forall>k. 2 \<le> k \<and> k \<le> nat 2 \<longrightarrow> coefficients fit ! k = 0))"
proof -
  have h1: "(1::int) < 2" by simp
  have h2: "(2::int) + 1 \<le> int (length [0, 1, 4 :: real])" by simp
  from h1 h2 diagonal_fallback_only_first_two [OF h1 h2] show ?thesis by blast
qed

text \<open>
  The claim as written, with every coefficient up to \<open>degree\<close> a guarded diagonal
  quotient, fails for the quadratic fit of \<open>[0, 1, 4]\<close>: the quotient for \<open>k = 2\<close> is
  \<open>17 / 17 = 1\<close>, and the coefficient returned is \<open>0\<close>.
\<close>

theorem diagonal_fallback_skips_third_coefficient:
  "coefficients (projr (polynomialRegression [0, 1, 4] 2)) ! 2 = 0
   \<and> XTy (designMatrix 3 2) [0, 1, 4] 3 ! 2 / orElse (XTX (designMatrix 3 2) 3 ! 2 ! 2) 1 = 1"
  by (simp add: polynomialRegression_def designMatrix_def solveNormalEquations_def XTX_def XTy_def
      gaussianElimination_def js_assign_def orElse_def polyEval_def Let_def upt_rec upto.simps)

subsection \<open>Number of coefficients\<close>

text \<open>
  C3. The number of coefficients is meant to be \<open>degree + 1\<close>, the size the solution is
  allocated with. For the constant fit (\<open>degree = 0\<close>) the solver still assigns
  \<open>solution[1]\<close>, which extends the array of one entry: the fit of \<open>[5]\<close> with degree 0
  returns the two coefficients \<open>[5, 0]\<close>.
\<close>

theorem constant_fit_has_two_coefficients:
  "polynomialRegression [5] 0 = Inr \<lparr>coefficients = [5, 0], r2 = 1\<rparr>
   \<and> length (coefficients (projr (polynomialRegression [5] 0))) \<noteq> nat (0 + 1)"
  by (simp add: polynomialRegression_def designMatrix_def solveNormalEquations_def XTX_def XTy_def
      gaussianElimination_def js_assign_def orElse_def polyEval_def Let_def upt_rec upto.simps)

subsection \<open>Series too short for the fit\<close>

text \<open>
  C7 (as the code has it). A series shorter than \<open>degree + 1\<close> gets the coefficients
  \<open>[0]\<close> and the score 0 from \<open>polynomialRegression\<close>, with no fit attempted and nothing
  raised. The linear convenience fit of a series shorter than 2 returns slope 0, score
  0, and as intercept the only value of the series (0 for the empty series).
\<close>

theorem short_series_fallback:
  "(0 \<le> degree \<and> int (length data) < degree + 1 \<longrightarrow>
      polynomialRegression data degree = Inr \<lparr>coefficients = [0], r2 = 0\<rparr>)
   \<and> (length data < 2 \<longrightarrow>
        linearRegression data =
          \<lparr>slope = 0, intercept = (case data of [] \<Rightarrow> 0 | d0 # _ \<Rightarrow> d0), linR2 = 0\<rparr>)"
  by (auto simp: polynomialRegression_def linearRegression_def orElse_def split: list.splits)

theorem short_series_fallback_witness:
  "(0::int) \<le> 1 \<and> int (length [5::real]) < 1 + 1
   \<and> polynomialRegression [5] 1 = Inr \<lparr>coefficients = [0], r2 = 0\<rparr>
   \<and> length [5::real] < 2
   \<and> linearRegression [5] = \<lparr>slope = 0, intercept = 5, linR2 = 0\<rparr>"
  using short_series_fallback [of 1 "[5]"] by simp

text \<open>
  The claim as written gives the linear convenience fit the coefficients \<open>[0, 0]\<close>; for
  the series \<open>[5]\<close> its intercept is \<open>5\<close>.
\<close>

theorem linear_short_series_keeps_first_value:
  "length [5::real] < 1 + 1
   \<and> (intercept (linearRegression [5]), slope (linearRegression [5])) \<noteq> (0, 0)"
  by (simp add: linearRegression_def orElse_def)

subsection \<open>A perfectly linear series\<close>

text \<open>
  C8. For the series \<open>[1, 3, 5, 7, 9]\<close> the linear fit has slope 2, intercept 1 and score
  1, both as \<open>linearRegression\<close> computes it and as the degree-1 polynomial fit does
  through the closed form for two unknowns (coefficients \<open>[1, 2]\<close>).
\<close>

theorem linear_fit_of_odd_numbers:
  "linearRegression [1, 3, 5, 7, 9] = \<lparr>slope = 2, intercept = 1, linR2 = 1\<rparr>
   \<and> polynomialRegression [1, 3, 5, 7, 9] 1 = Inr \<lparr>coefficients = [1, 2], r2 = 1\<rparr>"
  by (simp add: linearRegression_def polynomialRegression_def designMatrix_def
      solveNormalEquations_def XTX_def XTy_def gaussianElimination_def js_assign_def polyEval_def
      Let_def upt_rec upto.simps)

subsection \<open>The moving average\<close>

lemma collect_map:
  assumes "\<And>x. x \<in> set xs \<Longrightarrow> f x = Inr (g x)"
  shows "collect f xs = Inr (map g xs)"
  using assms by (induction xs) simp_all

lemma foldl_add_sum_list: "foldl (\<lambda>sum v. sum + v) s xs = s + sum_list (xs :: real list)"
  by (induction xs arbitrary: s) simp_all

lemma half_window_bounds:
  assumes "1 \<le> (window :: real)"
  shows "0 \<le> \<lfloor>window / 2\<rfloor>" and "1 \<le> \<lceil>window / 2\<rceil>"
proof -
  from assms show "0 \<le> \<lfloor>window / 2\<rfloor>" by simp
  from assms have "0 < window / 2" by simp
  then have "0 < \<lceil>window / 2\<rceil>" by (simp add: ceiling_less_iff)
  then show "1 \<le> \<lceil>window / 2\<rceil>" by simp
qed

lemma js_slice_inside:
  assumes "0 \<le> lo" and "hi \<le> int (length xs)" and "lo \<le> hi"
  shows "js_slice xs lo hi = take (nat hi - nat lo) (drop (nat lo) xs)"
  using assms by (simp add: js_slice_def Let_def min_def nat_diff_distrib)

lemma clip_bounds:
  fixes f c :: int
  assumes "0 \<le> f" and "1 \<le> c" and "i < n"
  shows "nat (max 0 (int i - f)) \<le> i"
    and "i < nat (min (int n) (int i + c))"
    and "nat (min (int n) (int i + c)) \<le> n"
    and "max 0 (int i - f) \<le> min (int n) (int i + c)"
  using assms by (simp_all add: min_def max_def) linarith+

lemma window_bounds:
  assumes "1 \<le> window" and "i < n"
  shows "windowLo window i \<le> i" and "i < windowHi n window i" and "windowHi n window i \<le> n"
  unfolding windowLo_def windowHi_def
  by (rule clip_bounds [OF half_window_bounds [OF assms(1)] assms(2)])+

lemma windowAt_take_drop:
  assumes "1 \<le> window" and "i < length data"
  shows "windowAt data window i =
         take (windowHi (length data) window i - windowLo window i) (drop (windowLo window i) data)"
proof -
  have "max 0 (int i - \<lfloor>window / 2\<rfloor>) \<le> min (int (length data)) (int i + \<lceil>window / 2\<rceil>)"
    by (rule clip_bounds [OF half_window_bounds [OF assms(1)] assms(2)])
  then show ?thesis
    unfolding windowAt_def Let_def windowLo_def windowHi_def
    by (intro js_slice_inside) simp_all
qed

lemma length_windowAt:
  assumes "1 \<le> window" and "i < length data"
  shows "length (windowAt data window i) = windowHi (length data) window i - windowLo window i"
  using window_bounds [OF assms] by (simp add: windowAt_take_drop [OF assms])

lemma windowAt_nonempty:
  assumes "1 \<le> window" and "i < length data"
  shows "windowAt data window i \<noteq> []"
proof -
  from window_bounds [OF assms] have "0 < length (windowAt data window i)"
    by (simp add: length_windowAt [OF assms])
  then show ?thesis by auto
qed

lemma movingAverage_ok:
  assumes "1 \<le> window"
  shows "movingAverage data window =
         Inr (map (\<lambda>i. sum_list (windowAt data window i) / real (length (windowAt data window i)))
                  [0..<length data])"
  unfolding movingAverage_def
  by (rule collect_map) (simp add: Let_def windowAt_nonempty [OF assms] foldl_add_sum_list)

lemma sum_list_take_drop:
  assumes "lo \<le> hi" and "hi \<le> length xs"
  shows "sum_list (take (hi - lo) (drop lo xs)) = (\<Sum>j = lo..<hi. (xs ! j :: real))"
proof -
  have len: "length (take (hi - lo) (drop lo xs)) = hi - lo" using assms by simp
  have "sum_list (take (hi - lo) (drop lo xs)) =
        (\<Sum>j = 0..<hi - lo. take (hi - lo) (drop lo xs) ! j)"
    using len by (simp add: sum_list_sum_nth)
  also have "\<dots> = (\<Sum>j = 0..<hi - lo. xs ! (lo + j))"
    using assms by (intro sum.cong) simp_all
  also have "\<dots> = (\<Sum>j = lo..<hi. xs ! j)"
    using assms sum.shift_bounds_nat_ivl [of "\<lambda>j. xs ! j" 0 lo "hi - lo"]
    by (simp add: add.commute)
  finally show ?thesis .
qed

lemma windowAt_mean:
  assumes "1 \<le> window" and "i < length data"
  shows "sum_list (windowAt data window i) / real (length (windowAt data window i)) =
         clippedWindowMean data window i"
proof -
  from window_bounds [OF assms] have "windowLo window i \<le> windowHi (length data) window i"
    and "windowHi (length data) window i \<le> length data" by simp_all
  then have "sum_list (windowAt data window i) =
             (\<Sum>j = windowLo window i..<windowHi (length data) window i. data ! j)"
    unfolding windowAt_take_drop [OF assms] by (rule sum_list_take_drop)
  then show ?thesis
    by (simp add: clippedWindowMean_def length_windowAt [OF assms])
qed

text \<open>
  C9. For a non-empty series and a window of at least 1, \<open>movingAverage\<close> returns a series
  of the same length, and entry \<open>i\<close> is the mean of the entries whose index lies in
  \<open>[i - floor(window/2), i + ceil(window/2))\<close> clipped to the series: at the edges the mean
  is over the smaller clipped window. No window is empty, so no entry leaves the reals.
\<close>

theorem movingAverage_clipped_mean:
  assumes "data \<noteq> []" and "1 \<le> window"
  shows "\<exists>ys. movingAverage data window = Inr ys \<and> length ys = length data
           \<and> (\<forall>i<length data. ys ! i = clippedWindowMean data window i)"
proof -
  let ?ys = "map (\<lambda>i. sum_list (windowAt data window i) / real (length (windowAt data window i)))
                 [0..<length data]"
  have "movingAverage data window = Inr ?ys" by (rule movingAverage_ok [OF assms(2)])
  moreover have "length ?ys = length data" by simp
  moreover have "\<forall>i<length data. ?ys ! i = clippedWindowMean data window i"
    by (simp add: windowAt_mean [OF assms(2)])
  ultimately show ?thesis by blast
qed

theorem movingAverage_clipped_mean_witness:
  "[1, 2, 3, 4 :: real] \<noteq> [] \<and> (1::real) \<le> 3
   \<and> (\<exists>ys. movingAverage [1, 2, 3, 4] 3 = Inr ys \<and> length ys = length [1, 2, 3, 4 :: real]
           \<and> (\<forall>i<length [1, 2, 3, 4 :: real]. ys ! i = clippedWindowMean [1, 2, 3, 4] 3 i))"
proof -
  have h1: "[1, 2, 3, 4 :: real] \<noteq> []" by simp
  have h2: "(1::real) \<le> 3" by simp
  from h1 h2 movingAverage_clipped_mean [OF h1 h2] show ?thesis by blast
qed

subsection \<open>The forecast always has a fit and a decomposition\<close>

lemma detectSeasonality_ok: "\<exists>dec. detectSeasonality data = Inr dec"
proof -
  have "(1::real) \<le> 4" by simp
  from movingAverage_ok [OF this, of data] show ?thesis
    by (simp add: detectSeasonality_def Let_def)
qed

lemma trendFit_ok:
  assumes "3 \<le> length vs"
  shows "\<exists>a b r. polynomialRegression vs (min 3 (int (length vs) - 1)) =
           Inr \<lparr>coefficients = a # b # replicate (nat (min 3 (int (length vs) - 1)) - 1) 0, r2 = r\<rparr>"
proof -
  from assms have d: "2 \<le> min 3 (int (length vs) - 1)" by simp
  have n: "min 3 (int (length vs) - 1) + 1 \<le> int (length vs)" by simp
  from polynomialRegression_fallback [OF d n] show ?thesis by blast
qed

lemma forecast_unfold:
  assumes "3 \<le> length historicalData"
    and "polynomialRegression (map valueOf historicalData)
           (min 3 (int (length historicalData) - 1)) = Inr polyResult"
    and "detectSeasonality (map valueOf historicalData) = Inr dec"
  shows "generateEnhancedPredictions rnd clock historicalData months =
         Inr \<lparr>predictions = map (predictStep rnd clock (map valueOf historicalData) polyResult dec)
                                 [1..months],
              confidence = r2 polyResult,
              trendDirection = trendLabel (map valueOf historicalData),
              seasonalPattern = hasSeasonality dec,
              accuracy = min (r2 polyResult * 100) 95\<rparr>"
  using assms by (simp add: generateEnhancedPredictions_def Let_def)

lemma forecast_ok:
  assumes "3 \<le> length historicalData"
  shows "\<exists>polyResult dec.
           polynomialRegression (map valueOf historicalData)
             (min 3 (int (length historicalData) - 1)) = Inr polyResult
         \<and> detectSeasonality (map valueOf historicalData) = Inr dec
         \<and> generateEnhancedPredictions rnd clock historicalData months =
             Inr \<lparr>predictions = map (predictStep rnd clock (map valueOf historicalData) polyResult dec)
                                     [1..months],
                  confidence = r2 polyResult,
                  trendDirection = trendLabel (map valueOf historicalData),
                  seasonalPattern = hasSeasonality dec,
                  accuracy = min (r2 polyResult * 100) 95\<rparr>"
proof -
  from assms have "3 \<le> length (map valueOf historicalData)" by simp
  from trendFit_ok [OF this] obtain polyResult where
    p: "polynomialRegression (map valueOf historicalData)
          (min 3 (int (length historicalData) - 1)) = Inr polyResult" by auto
  from detectSeasonality_ok obtain dec where
    d: "detectSeasonality (map valueOf historicalData) = Inr dec" by blast
  from p d forecast_unfold [OF assms p d] show ?thesis by blast
qed

lemma predictStep_fields:
  "predicted (predictStep rnd clock vs polyResult dec i) = Some True"
  "vs ! (length vs - 1) * 0.2 \<le> valueOf (predictStep rnd clock vs polyResult dec i)"
  by (simp_all add: predictStep_def Let_def)

lemma trendLabel_last_three:
  assumes "3 \<le> length vs"
  shows "trendLabel vs =
         (if vs ! (length vs - 1) > vs ! (length vs - 3) * 1.05 then Up
          else if vs ! (length vs - 1) < vs ! (length vs - 3) * 0.95 then Down
          else Stable)"
proof -
  from assms have s: "js_slice vs (- 3) (int (length vs)) = drop (length vs - 3) vs"
    by (simp add: js_slice_def Let_def max_def nat_diff_distrib)
  from assms have i: "length vs - 3 + 2 = length vs - 1" by simp
  from assms have "drop (length vs - 3) vs ! 0 = vs ! (length vs - 3)" by simp
  moreover from assms have "drop (length vs - 3) vs ! 2 = vs ! (length vs - 3 + 2)"
    by (intro nth_drop) simp
  ultimately have "drop (length vs - 3) vs ! 0 = vs ! (length vs - 3)"
    and "drop (length vs - 3) vs ! 2 = vs ! (length vs - 1)"
    by (simp_all only: i)
  with s show ?thesis by (simp add: trendLabel_def Let_def)
qed

lemma predictStep_cong:
  assumes "rnd1 i = rnd2 i" and "clock1 i = clock2 i"
  shows "predictStep rnd1 clock1 vs polyResult dec i = predictStep rnd2 clock2 vs polyResult dec i"
  using assms by (simp add: predictStep_def)

lemma forecast_cong:
  assumes "\<forall>i \<in> {1..months}. rnd1 i = rnd2 i" and "\<forall>i \<in> {1..months}. clock1 i = clock2 i"
  shows "generateEnhancedPredictions rnd1 clock1 historicalData months =
         generateEnhancedPredictions rnd2 clock2 historicalData months"
proof -
  have "map (predictStep rnd1 clock1 vs polyResult dec) [1..months] =
        map (predictStep rnd2 clock2 vs polyResult dec) [1..months]" for vs polyResult dec
    using assms by (intro map_cong refl predictStep_cong) simp_all
  then show ?thesis
    by (simp add: generateEnhancedPredictions_def Let_def split: sum.splits)
qed

subsection \<open>The forecast\<close>

text \<open>
  C4. With fewer than 3 observed points, whatever the horizon, the forecast returns
  without raising the zero result: no points, confidence 0, trend label stable, no
  seasonality, accuracy 0.
\<close>

theorem forecast_too_few_points:
  assumes "length historicalData < 3"
  shows "generateEnhancedPredictions rnd clock historicalData months =
         Inr \<lparr>predictions = [], confidence = 0, trendDirection = Stable,
              seasonalPattern = False, accuracy = 0\<rparr>"
  using assms by (simp add: generateEnhancedPredictions_def)

theorem forecast_too_few_points_witness:
  "length [\<lparr>month = ''Jan'', valueOf = 10, predicted = None\<rparr>,
           \<lparr>month = ''Feb'', valueOf = 12, predicted = None\<rparr>] < 3
   \<and> generateEnhancedPredictions halfRandom januaryClock
        [\<lparr>month = ''Jan'', valueOf = 10, predicted = None\<rparr>,
         \<lparr>month = ''Feb'', valueOf = 12, predicted = None\<rparr>] 3 =
       Inr \<lparr>predictions = [], confidence = 0, trendDirection = Stable,
            seasonalPattern = False, accuracy = 0\<rparr>"
proof -
  have h: "length [\<lparr>month = ''Jan'', valueOf = 10, predicted = None\<rparr>,
                   \<lparr>month = ''Feb'', valueOf = 12, predicted = None\<rparr>] < 3" by simp
  from h forecast_too_few_points [OF h] show ?thesis by blast
qed

text \<open>
  C1 (as the code has it). For every observed series with at least 3 points and every
  positive horizon, the forecast returns exactly \<open>horizon\<close> points, each marked as
  predicted and each with a value of at least 0.2 times the last observed value.
\<close>

theorem forecast_points:
  assumes "3 \<le> length historicalData" and "0 < months"
  shows "\<exists>res. generateEnhancedPredictions rnd clock historicalData months = Inr res
           \<and> length (predictions res) = nat months
           \<and> (\<forall>p \<in> set (predictions res).
                 predicted p = Some True \<and> 0.2 * valueOf (last historicalData) \<le> valueOf p)"
proof -
  let ?vs = "map valueOf historicalData"
  from forecast_ok [OF assms(1), of rnd clock months] obtain polyResult dec where
    res: "generateEnhancedPredictions rnd clock historicalData months =
          Inr \<lparr>predictions = map (predictStep rnd clock ?vs polyResult dec) [1..months],
               confidence = r2 polyResult,
               trendDirection = trendLabel ?vs,
               seasonalPattern = hasSeasonality dec,
               accuracy = min (r2 polyResult * 100) 95\<rparr>" by blast
  from assms(1) have ne: "historicalData \<noteq> []" by auto
  then have lastv: "?vs ! (length ?vs - 1) = valueOf (last historicalData)"
    by (simp add: last_conv_nth)
  have len: "length (map (predictStep rnd clock ?vs polyResult dec) [1..months]) = nat months"
    by simp
  have each: "\<forall>p \<in> set (map (predictStep rnd clock ?vs polyResult dec) [1..months]).
                predicted p = Some True \<and> 0.2 * valueOf (last historicalData) \<le> valueOf p"
  proof
    fix p assume "p \<in> set (map (predictStep rnd clock ?vs polyResult dec) [1..months])"
    then obtain i where p: "p = predictStep rnd clock ?vs polyResult dec i" by auto
    from predictStep_fields(2) [of ?vs rnd clock polyResult dec i] lastv
    show "predicted p = Some True \<and> 0.2 * valueOf (last historicalData) \<le> valueOf p"
      by (simp add: p predictStep_fields(1) mult.commute)
  qed
  from res len each show ?thesis by simp
qed

theorem forecast_points_witness:
  "3 \<le> length [\<lparr>month = ''Jan'', valueOf = 10, predicted = None\<rparr>,
                \<lparr>month = ''Feb'', valueOf = 12, predicted = None\<rparr>,
                \<lparr>month = ''Mar'', valueOf = 15, predicted = None\<rparr>]
   \<and> (0::int) < 2
   \<and> (\<exists>res. generateEnhancedPredictions halfRandom januaryClock
               [\<lparr>month = ''Jan'', valueOf = 10, predicted = None\<rparr>,
                \<lparr>month = ''Feb'', valueOf = 12, predicted = None\<rparr>,
                \<lparr>month = ''Mar'', valueOf = 15, predicted = None\<rparr>] 2 = Inr res
           \<and> length (predictions res) = 2
           \<and> (\<forall>p \<in> set (predictions res). predicted p = Some True \<and> 3 \<le> valueOf p))"
proof -
  have h1: "3 \<le> length [\<lparr>month = ''Jan'', valueOf = 10, predicted = None\<rparr>,
                         \<lparr>month = ''Feb'', valueOf = 12, predicted = None\<rparr>,
                         \<lparr>month = ''Mar'', valueOf = 15, predicted = None\<rparr>]" by simp
  have h2: "(0::int) < 2" by simp
  from forecast_points [OF h1 h2, of halfRandom januaryClock] show ?thesis by simp
qed

text \<open>
  The claim as written covers every observed series; for the empty series and the
  horizon 1 the forecast has no point at all.
\<close>

theorem forecast_needs_three_points:
  "(0::int) < 1
   \<and> length (predictions (projr (generateEnhancedPredictions halfRandom januaryClock [] 1))) \<noteq> nat 1"
  by (simp add: generateEnhancedPredictions_def)

text \<open>
  C5. When every draw of the random source in the passes \<open>1 .. horizon\<close> is \<open>0.5\<close> and
  every reading of the clock in those passes is the same month, two calls of the
  forecast on the same observed series and the same horizon return the same result,
  whatever the two sources would give elsewhere.
\<close>

theorem forecast_deterministic:
  assumes "\<forall>i \<in> {1..months}. rnd1 i = 0.5 \<and> rnd2 i = 0.5"
    and "\<forall>i \<in> {1..months}. clock1 i = currentMonth \<and> clock2 i = currentMonth"
  shows "generateEnhancedPredictions rnd1 clock1 historicalData months =
         generateEnhancedPredictions rnd2 clock2 historicalData months"
proof (rule forecast_cong)
  show "\<forall>i \<in> {1..months}. rnd1 i = rnd2 i"
  proof
    fix i assume "i \<in> {1..months}"
    with assms(1) have "rnd1 i = 0.5 \<and> rnd2 i = 0.5" by (rule bspec)
    then show "rnd1 i = rnd2 i" by (simp only:)
  qed
  show "\<forall>i \<in> {1..months}. clock1 i = clock2 i"
  proof
    fix i assume "i \<in> {1..months}"
    with assms(2) have "clock1 i = currentMonth \<and> clock2 i = currentMonth" by (rule bspec)
    then show "clock1 i = clock2 i" by (simp only:)
  qed
qed

theorem forecast_deterministic_witness:
  "halfRandom 1 = 0.5 \<and> halfRandom 2 = 0.5
   \<and> januaryClock 1 = 0 \<and> januaryClock 2 = 0
   \<and> generateEnhancedPredictions halfRandom januaryClock
        [\<lparr>month = ''Jan'', valueOf = 10, predicted = None\<rparr>,
         \<lparr>month = ''Feb'', valueOf = 12, predicted = None\<rparr>,
         \<lparr>month = ''Mar'', valueOf = 15, predicted = None\<rparr>] 2 =
       generateEnhancedPredictions (\<lambda>i. if i \<le> 2 then 1 / 2 else 0) (\<lambda>i. if i \<le> 2 then 0 else 7)
        [\<lparr>month = ''Jan'', valueOf = 10, predicted = None\<rparr>,
         \<lparr>month = ''Feb'', valueOf = 12, predicted = None\<rparr>,
         \<lparr>month = ''Mar'', valueOf = 15, predicted = None\<rparr>] 2"
proof -
  have h1: "\<forall>i \<in> {1..2::int}. halfRandom i = 0.5 \<and> (\<lambda>i. if i \<le> 2 then 1 / 2 else 0) i = (0.5::real)"
    by (simp add: halfRandom_def)
  have h2: "\<forall>i \<in> {1..2::int}. januaryClock i = 0 \<and> (\<lambda>i. if i \<le> 2 then 0 else 7) i = (0::nat)"
    by (simp add: januaryClock_def)
  have r: "halfRandom 1 = 0.5" "halfRandom 2 = 0.5" by (simp_all add: halfRandom_def)
  have c: "januaryClock 1 = 0" "januaryClock 2 = 0" by (simp_all add: januaryClock_def)
  from r c forecast_deterministic [OF h1 h2] show ?thesis by blast
qed

text \<open>
  C6. For an observed series with at least 3 points the trend label compares the first
  and the last of the most recent 3 values: up when the last exceeds the first times
  1.05, down when it is below the first times 0.95, stable otherwise. In particular the
  recent values \<open>[100, 100, 106]\<close> give up, \<open>[100, 100, 94]\<close> give down and
  \<open>[100, 100, 101]\<close> give stable.
\<close>

theorem trend_label_of_recent_three:
  assumes "3 \<le> length historicalData"
  shows "\<exists>res. generateEnhancedPredictions rnd clock historicalData months = Inr res
           \<and> trendDirection res =
               (let first = valueOf (historicalData ! (length historicalData - 3));
                    final = valueOf (historicalData ! (length historicalData - 1))
                in if final > first * 1.05 then Up
                   else if final < first * 0.95 then Down
                   else Stable)
           \<and> (map valueOf (drop (length historicalData - 3) historicalData) = [100, 100, 106]
                \<longrightarrow> trendDirection res = Up)
           \<and> (map valueOf (drop (length historicalData - 3) historicalData) = [100, 100, 94]
                \<longrightarrow> trendDirection res = Down)
           \<and> (map valueOf (drop (length historicalData - 3) historicalData) = [100, 100, 101]
                \<longrightarrow> trendDirection res = Stable)"
proof -
  let ?vs = "map valueOf historicalData"
  let ?n = "length historicalData"
  from forecast_ok [OF assms, of rnd clock months] obtain res where
    res: "generateEnhancedPredictions rnd clock historicalData months = Inr res"
    and lab: "trendDirection res = trendLabel ?vs" by force
  from assms have l3: "3 \<le> length ?vs" by simp
  from assms have nth: "?vs ! (?n - 3) = valueOf (historicalData ! (?n - 3))"
    "?vs ! (?n - 1) = valueOf (historicalData ! (?n - 1))" by simp_all
  from trendLabel_last_three [OF l3] nth have lab2: "trendLabel ?vs =
      (if valueOf (historicalData ! (?n - 1)) > valueOf (historicalData ! (?n - 3)) * 1.05 then Up
       else if valueOf (historicalData ! (?n - 1)) < valueOf (historicalData ! (?n - 3)) * 0.95
       then Down else Stable)" by simp
  have recent: "valueOf (historicalData ! (?n - 3)) = a \<and> valueOf (historicalData ! (?n - 1)) = c"
    if "map valueOf (drop (?n - 3) historicalData) = [a, b, c]" for a b c
  proof -
    from assms have i: "?n - 3 + 2 = ?n - 1" by simp
    from that have d: "drop (?n - 3) ?vs = [a, b, c]" by (simp add: drop_map)
    from l3 have "drop (?n - 3) ?vs ! 0 = ?vs ! (?n - 3 + 0)" by (intro nth_drop) simp
    moreover from l3 have "drop (?n - 3) ?vs ! 2 = ?vs ! (?n - 3 + 2)" by (intro nth_drop) simp
    ultimately have "?vs ! (?n - 3) = a" and "?vs ! (?n - 1) = c" using d i by simp_all
    with nth show ?thesis by simp
  qed
  have up: "map valueOf (drop (?n - 3) historicalData) = [100, 100, 106] \<longrightarrow> trendLabel ?vs = Up"
    using recent [of 100 100 106] lab2 by simp
  have down: "map valueOf (drop (?n - 3) historicalData) = [100, 100, 94] \<longrightarrow> trendLabel ?vs = Down"
    using recent [of 100 100 94] lab2 by simp
  have stable: "map valueOf (drop (?n - 3) historicalData) = [100, 100, 101]
      \<longrightarrow> trendLabel ?vs = Stable"
    using recent [of 100 100 101] lab2 by simp
  from res lab lab2 up down stable show ?thesis by (simp add: Let_def)
qed

theorem trend_label_of_recent_three_witness:
  "3 \<le> length [\<lparr>month = ''Jan'', valueOf = 100, predicted = None\<rparr>,
                \<lparr>month = ''Feb'', valueOf = 100, predicted = None\<rparr>,
                \<lparr>month = ''Mar'', valueOf = 106, predicted = None\<rparr>]
   \<and> (\<exists>res. generateEnhancedPredictions halfRandom januaryClock
               [\<lparr>month = ''Jan'', valueOf = 100, predicted = None\<rparr>,
                \<lparr>month = ''Feb'', valueOf = 100, predicted = None\<rparr>,
                \<lparr>month = ''Mar'', valueOf = 106, predicted = None\<rparr>] 3 = Inr res
           \<and> trendDirection res = Up)"
proof -
  have h: "3 \<le> length [\<lparr>month = ''Jan'', valueOf = 100, predicted = None\<rparr>,
                        \<lparr>month = ''Feb'', valueOf = 100, predicted = None\<rparr>,
                        \<lparr>month = ''Mar'', valueOf = 106, predicted = None\<rparr>]" by simp
  from trend_label_of_recent_three [OF h, of halfRandom januaryClock 3] show ?thesis by auto
qed

text \<open>
  C10. For an observed series with at least 4 points the forecast fits degree 3, the fit
  succeeds with 4 coefficients, and every coefficient at index 2 and above is zero. The
  trend component that each pass of the prediction loop evaluates, \<open>polyEval\<close> of these
  coefficients at the future time index, is therefore the affine function
  \<open>c\<^sub>0 + c\<^sub>1 * t\<close> of the time \<open>t\<close>.
\<close>

theorem forecast_trend_is_affine:
  assumes "4 \<le> length historicalData"
  shows "\<exists>polyResult dec.
           polynomialRegression (map valueOf historicalData)
             (min 3 (int (length historicalData) - 1)) = Inr polyResult
         \<and> generateEnhancedPredictions rnd clock historicalData months =
             Inr \<lparr>predictions = map (predictStep rnd clock (map valueOf historicalData) polyResult dec)
                                     [1..months],
                  confidence = r2 polyResult,
                  trendDirection = trendLabel (map valueOf historicalData),
                  seasonalPattern = hasSeasonality dec,
                  accuracy = min (r2 polyResult * 100) 95\<rparr>
         \<and> length (coefficients polyResult) = 4
         \<and> (\<forall>k. 2 \<le> k \<and> k < length (coefficients polyResult) \<longrightarrow> coefficients polyResult ! k = 0)
         \<and> (\<forall>t. polyEval (coefficients polyResult) t =
                  coefficients polyResult ! 0 + coefficients polyResult ! 1 * t)"
proof -
  let ?vs = "map valueOf historicalData"
  from assms have l3: "3 \<le> length ?vs" and l3': "3 \<le> length historicalData" by simp_all
  from assms have deg: "min 3 (int (length historicalData) - 1) = 3" by simp
  from trendFit_ok [OF l3] obtain a b r where
    "polynomialRegression ?vs (min 3 (int (length ?vs) - 1)) =
       Inr \<lparr>coefficients = a # b # replicate (nat (min 3 (int (length ?vs) - 1)) - 1) 0, r2 = r\<rparr>"
    by blast
  then have fit: "polynomialRegression ?vs (min 3 (int (length historicalData) - 1)) =
       Inr \<lparr>coefficients = a # b # replicate 2 0, r2 = r\<rparr>"
    by (simp add: deg)
  let ?fit = "\<lparr>coefficients = a # b # replicate 2 0, r2 = r\<rparr>"
  from detectSeasonality_ok obtain dec where d: "detectSeasonality ?vs = Inr dec" by blast
  note res = forecast_unfold [OF l3' fit d, of rnd clock months]
  have len: "length (coefficients ?fit) = 4" by simp
  have zeros: "\<forall>k. 2 \<le> k \<and> k < length (coefficients ?fit) \<longrightarrow> coefficients ?fit ! k = 0"
  proof (intro allI impI)
    fix k assume "2 \<le> k \<and> k < length (coefficients ?fit)"
    then have "2 \<le> k" and "k \<le> 3" by simp_all
    then have "(a # b # replicate (3 - 1) (0::real)) ! k = 0" by (rule nth_fallback_tail)
    then show "coefficients ?fit ! k = 0" by simp
  qed
  have affine: "\<forall>t. polyEval (coefficients ?fit) t = coefficients ?fit ! 0 + coefficients ?fit ! 1 * t"
    using polyEval_affine [of a b 2] by simp
  from fit res len zeros affine show ?thesis by blast
qed

theorem forecast_trend_is_affine_witness:
  "4 \<le> length [\<lparr>month = ''Jan'', valueOf = 1, predicted = None\<rparr>,
                \<lparr>month = ''Feb'', valueOf = 2, predicted = None\<rparr>,
                \<lparr>month = ''Mar'', valueOf = 5, predicted = None\<rparr>,
                \<lparr>month = ''Apr'', valueOf = 10, predicted = None\<rparr>]
   \<and> (\<exists>polyResult.
         polynomialRegression [1, 2, 5, 10] 3 = Inr polyResult
         \<and> (\<forall>k. 2 \<le> k \<and> k < length (coefficients polyResult) \<longrightarrow> coefficients polyResult ! k = 0)
         \<and> (\<forall>t. polyEval (coefficients polyResult) t =
                  coefficients polyResult ! 0 + coefficients polyResult ! 1 * t))"
proof -
  have h: "4 \<le> length [\<lparr>month = ''Jan'', valueOf = 1, predicted = None\<rparr>,
                        \<lparr>month = ''Feb'', valueOf = 2, predicted = None\<rparr>,
                        \<lparr>month = ''Mar'', valueOf = 5, predicted = None\<rparr>,
                        \<lparr>month = ''Apr'', valueOf = 10, predicted = None\<rparr>]" by simp
  from forecast_trend_is_affine [OF h, of halfRandom januaryClock 1] obtain polyResult where
    "polynomialRegression [1, 2, 5, 10] 3 = Inr polyResult"
    "\<forall>k. 2 \<le> k \<and> k < length (coefficients polyResult) \<longrightarrow> coefficients polyResult ! k = 0"
    "\<forall>t. polyEval (coefficients polyResult) t =
                  coefficients polyResult ! 0 + coefficients polyResult ! 1 * t"
    by auto
  with h show ?thesis by blast
qed

end
